theory Spec2Isabelle
  imports Complex_Main "HOL-Library.Word" "HOL-Library.Log_Nat"
begin

unbundle bit_operations_syntax

section \<open>Python values used by the handlers of \<^verbatim>\<open>ai/main.py\<close>\<close>

text \<open>
  The service is a set of FastAPI handlers. Each handler is a function of its request;
  logging is its only effect and is left out. Strings are lists of bytes (the UTF-8
  encoding of the Python string); the handlers only concatenate request strings, look for
  the ASCII comma in them and hand them to the base64 decoder, so nothing depends on
  the difference. Python's \<^verbatim>\<open>int\<close> is \<^typ>\<open>int\<close>.
\<close>

type_synonym byte = "8 word"

text \<open>
  The value of \<^verbatim>\<open>str(e)\<close> for a raised exception \<^verbatim>\<open>e\<close>: the handlers use nothing else
  of an exception.
\<close>

type_synonym exception_text = string

text \<open>
  Dictionaries and lists that the handlers build as literals and that FastAPI serialises.
  A dictionary keeps its keys in insertion order, so it is an association list. A float
  is given by the rational number that the IEEE double is.
\<close>

datatype json =
    JNone
  | JInt int
  | JFloat rat
  | JStr string
  | JList "json list"
  | JDict "(string \<times> json) list"

subsection \<open>Floats\<close>

text \<open>
  Python floats are IEEE 754 binary64 numbers; a literal, a conversion from \<^verbatim>\<open>int\<close> and
  every arithmetic operation round the exact result to the nearest double, ties to even.
  \<open>float64\<close> is that rounding on the finite range: 53 significant bits, smallest
  exponent \<open>-1074\<close>. Results beyond the largest finite double (where Python gives
  \<^verbatim>\<open>inf\<close> or raises \<^verbatim>\<open>OverflowError\<close>) are not modelled: the handlers only compute
  \<^verbatim>\<open>0.9 - (i * 0.1)\<close> for \<^verbatim>\<open>i\<close> in \<^verbatim>\<open>range(min(limit, 5))\<close>.
\<close>

definition round_half_even :: "rat \<Rightarrow> int" where
  "round_half_even x =
     (let f = \<lfloor>x\<rfloor>; d = x - of_int f in
      if d < 1 / 2 then f else if 1 / 2 < d then f + 1 else if even f then f else f + 1)"

definition pow2 :: "int \<Rightarrow> rat" where
  "pow2 e = (if 0 \<le> e then 2 ^ nat e else 1 / 2 ^ nat (- e))"

definition binary_exponent :: "rat \<Rightarrow> int" where
  "binary_exponent x =
     (let (p, q) = quotient_of \<bar>x\<bar>;
          d = bitlen p - bitlen q
      in if pow2 d \<le> \<bar>x\<bar> then d else d - 1)"

definition float64 :: "rat \<Rightarrow> rat" where
  "float64 x =
     (if x = 0 then 0
      else let q = max (binary_exponent x - 52) (- 1074)
           in of_int (round_half_even (x / pow2 q)) * pow2 q)"

definition float_of_int :: "int \<Rightarrow> rat" where
  "float_of_int i = float64 (of_int i)"

definition float_mul :: "rat \<Rightarrow> rat \<Rightarrow> rat" where
  "float_mul a b = float64 (a * b)"

definition float_sub :: "rat \<Rightarrow> rat \<Rightarrow> rat" where
  "float_sub a b = float64 (a - b)"

subsection \<open>Strings, lists and ranges\<close>

definition digit_char :: "nat \<Rightarrow> char" where
  "digit_char d = ''0123456789'' ! d"

fun str_nat :: "nat \<Rightarrow> string" where
  "str_nat n =
     (if n < 10 then [digit_char n] else str_nat (n div 10) @ [digit_char (n mod 10)])"

text \<open>\<^verbatim>\<open>str(i)\<close>, which an f-string applies to an \<^verbatim>\<open>int\<close> field.\<close>

definition str_int :: "int \<Rightarrow> string" where
  "str_int i = (if i < 0 then CHR ''-'' # str_nat (nat (- i)) else str_nat (nat i))"

text \<open>\<^verbatim>\<open>range(n)\<close>: empty when \<^verbatim>\<open>n <= 0\<close>.\<close>

definition py_range :: "int \<Rightarrow> int list" where
  "py_range n = map int [0..<nat n]"

text \<open>
  \<^verbatim>\<open>xs[:stop]\<close>: a negative \<^verbatim>\<open>stop\<close> counts from the end, and the bound is clipped to
  the list, so a slice never raises.
\<close>

definition py_slice_to :: "'a list \<Rightarrow> int \<Rightarrow> 'a list" where
  "py_slice_to xs stop =
     (let n = int (length xs);
          j = (if stop < 0 then max 0 (n + stop) else min stop n)
      in take (nat j) xs)"

text \<open>\<^verbatim>\<open>xs[i]\<close>: a negative index counts from the end; out of range raises \<^verbatim>\<open>IndexError\<close>.\<close>

definition py_getitem :: "'a list \<Rightarrow> int \<Rightarrow> exception_text + 'a" where
  "py_getitem xs i =
     (if 0 \<le> i \<and> i < int (length xs) then Inr (xs ! nat i)
      else if i < 0 \<and> - int (length xs) \<le> i then Inr (xs ! nat (int (length xs) + i))
      else Inl ''list index out of range'')"

text \<open>
  \<^verbatim>\<open>s.split(sep)\<close> for a one-character separator: the string is cut at every occurrence,
  and the pieces between are returned, empty ones included. \<open>cur\<close> holds the piece being
  read, reversed.
\<close>

fun split_from :: "char \<Rightarrow> string \<Rightarrow> string \<Rightarrow> string list" where
  "split_from sep cur [] = [rev cur]"
| "split_from sep cur (c # cs) =
     (if c = sep then rev cur # split_from sep [] cs else split_from sep (c # cur) cs)"

definition py_split :: "string \<Rightarrow> char \<Rightarrow> string list" where
  "py_split s sep = split_from sep [] s"

text \<open>
  \<^verbatim>\<open>s.strip()\<close> removes leading and trailing whitespace; these are the ASCII characters
  for which \<^verbatim>\<open>str.isspace\<close> holds.
\<close>

definition py_isspace :: "char \<Rightarrow> bool" where
  "py_isspace c \<longleftrightarrow>
     c \<in> set [CHR 0x09, CHR 0x0A, CHR 0x0B, CHR 0x0C, CHR 0x0D,
              CHR 0x1C, CHR 0x1D, CHR 0x1E, CHR 0x1F, CHR 0x20]"

definition py_strip :: "string \<Rightarrow> string" where
  "py_strip s = rev (dropWhile py_isspace (rev (dropWhile py_isspace s)))"

text \<open>\<^verbatim>\<open>sub in s\<close> for strings.\<close>

fun py_contains :: "string \<Rightarrow> string \<Rightarrow> bool" where
  "py_contains sub [] = (sub = [])"
| "py_contains sub (c # cs) = (take (length sub) (c # cs) = sub \<or> py_contains sub cs)"

section \<open>Request and response models\<close>

record GenerateLayoutRequest =
  prompt :: string
  width :: int
  height :: int
  style :: "string option"

record GenerateLayoutResponse =
  scene_graph :: json
  preview_image :: "string option"

record TraceImageRequest =
  image_data :: string

record TraceImageResponse =
  svg_content :: string
  confidence :: rat

record GeneratePaletteRequest =
  image_data :: "string option"
  base_color :: "string option"
  count :: int

record GeneratePaletteResponse =
  colors :: "string list"
  harmony_type :: string

record InpaintRequest =
  image_data :: string
  mask_data :: string
  prompt :: string

record InpaintResponse =
  image_data :: string

text \<open>\<^verbatim>\<open>HTTPException(status_code=..., detail=...)\<close>, which FastAPI turns into the error response.\<close>

datatype HTTPException = HTTPException (status_code: int) (detail: string)

text \<open>
  Every handler has the shape
  \<^verbatim>\<open>try: ... return response  except Exception as e: raise HTTPException(status_code=500, detail=str(e))\<close>.
  The body is a value of \<open>exception_text + 'a\<close>, \<open>Inl\<close> when it raised.
\<close>

definition try_except_500 :: "exception_text + 'a \<Rightarrow> HTTPException + 'a" where
  "try_except_500 body =
     (case body of Inl e \<Rightarrow> Inl (HTTPException 500 e) | Inr response \<Rightarrow> Inr response)"

section \<open>Handlers without library calls\<close>

definition generate_layout :: "GenerateLayoutRequest \<Rightarrow> HTTPException + GenerateLayoutResponse" where
  "generate_layout request = try_except_500
     (let scene_graph = JDict
        [(''artboard'', JDict
            [(''id'', JStr ''artboard-1''),
             (''width'', JInt (width request)),
             (''height'', JInt (height request)),
             (''backgroundColor'', JStr ''#FFFFFF'')]),
         (''elements'', JList
            [JDict
               [(''id'', JStr ''text-1''),
                (''type'', JStr ''text''),
                (''content'', JStr (''Generated from: '' @ GenerateLayoutRequest.prompt request)),
                (''position'', JDict [(''x'', JInt 50), (''y'', JInt 50)]),
                (''style'', JDict
                   [(''fontSize'', JInt 24),
                    (''fontFamily'', JStr ''Inter''),
                    (''color'', JStr ''#333333'')])],
             JDict
               [(''id'', JStr ''rect-1''),
                (''type'', JStr ''rectangle''),
                (''position'', JDict [(''x'', JInt 50), (''y'', JInt 100)]),
                (''size'', JDict [(''width'', JInt 200), (''height'', JInt 100)]),
                (''style'', JDict
                   [(''fill'', JStr ''#3B82F6''),
                    (''stroke'', JStr ''none'')])]])]
      in Inr \<lparr>scene_graph = scene_graph, preview_image = None\<rparr>)"

text \<open>
  \<^verbatim>\<open>if request.base_color:\<close> is false for \<^verbatim>\<open>None\<close> and for the empty string. The variable it
  sets is not read afterwards.
\<close>

definition generate_palette :: "GeneratePaletteRequest \<Rightarrow> HTTPException + GeneratePaletteResponse" where
  "generate_palette request = try_except_500
     (let base_color =
            (case base_color request of
               None \<Rightarrow> ''#3B82F6''
             | Some b \<Rightarrow> if b \<noteq> [] then b else ''#3B82F6'');
          colors = [''#3B82F6'', ''#1E40AF'', ''#93C5FD'', ''#F59E0B'', ''#6B7280'']
      in Inr \<lparr>colors = py_slice_to colors (count request), harmony_type = ''complementary''\<rparr>)"

text \<open>\<^verbatim>\<open>0.9 - (i * 0.1)\<close>, with \<^verbatim>\<open>i\<close> an \<^verbatim>\<open>int\<close> that the multiplication converts to a float.\<close>

definition relevance :: "int \<Rightarrow> rat" where
  "relevance i = float_sub (float64 (9 / 10)) (float_mul (float_of_int i) (float64 (1 / 10)))"

definition search_result :: "int \<Rightarrow> json" where
  "search_result i = JDict
     [(''id'', JStr (''asset-'' @ str_int i)),
      (''url'', JStr (''https://picsum.photos/200/200?random='' @ str_int i)),
      (''title'', JStr (''Sample Asset '' @ str_int i)),
      (''tags'', JList [JStr ''sample'', JStr ''image'']),
      (''relevance'', JFloat (relevance i))]"

definition search_assets :: "string \<Rightarrow> int \<Rightarrow> HTTPException + json" where
  "search_assets query limit = try_except_500
     (let results = map search_result (py_range (min limit 5))
      in Inr (JDict [(''results'', JList results), (''total'', JInt (int (length results)))]))"

section \<open>Handlers that call the standard library and Pillow\<close>

text \<open>
  \<^verbatim>\<open>base64.b64decode\<close>, \<^verbatim>\<open>base64.b64encode\<close>, \<^verbatim>\<open>Image.open\<close>, the attributes \<^verbatim>\<open>width\<close> and
  \<^verbatim>\<open>height\<close> of an image and \<^verbatim>\<open>image.save(buffer, format='PNG')\<close> belong to Python's
  standard library and to Pillow, not to the service. The handlers take them as a
  parameter. A call that can raise returns \<open>Inl\<close> of the exception's text; \<open>'img\<close> is the
  type of an opened image.
\<close>

record 'img library =
  b64decode :: "string \<Rightarrow> exception_text + byte list"
  b64encode :: "byte list \<Rightarrow> string"
  Image_open :: "byte list \<Rightarrow> exception_text + 'img"
  Image_width :: "'img \<Rightarrow> int"
  Image_height :: "'img \<Rightarrow> int"
  Image_save_PNG :: "'img \<Rightarrow> exception_text + byte list"

text \<open>
  The string handed to the decoder,
  \<^verbatim>\<open>data.split(',')[1] if ',' in data else data\<close>.
\<close>

definition payload :: "string \<Rightarrow> exception_text + string" where
  "payload data =
     (if CHR '','' \<in> set data then py_getitem (py_split data CHR '','') 1 else Inr data)"

text \<open>
  \<^verbatim>\<open>base64.b64decode(data.split(',')[1] if ',' in data else data)\<close>, the expression that
  both handlers apply to each of their base64 fields.
\<close>

definition decode_data :: "'img library \<Rightarrow> string \<Rightarrow> exception_text + byte list" where
  "decode_data lib data =
     (case payload data of Inl e \<Rightarrow> Inl e | Inr encoded \<Rightarrow> b64decode lib encoded)"

definition svg_template :: "int \<Rightarrow> int \<Rightarrow> string" where
  \<open>svg_template w h =
     ''\<newline>        <svg width="'' @ str_int w @ ''" height="'' @ str_int h
       @ ''" xmlns="http://www.w3.org/2000/svg">''
     @ ''\<newline>            <rect x="10" y="10" width="'' @ str_int (w - 20)
       @ ''" height="'' @ str_int (h - 20) @ ''" ''
     @ ''\<newline>                  fill="none" stroke="#000000" stroke-width="2"/>''
     @ ''\<newline>            <text x="'' @ str_int (w div 2) @ ''" y="'' @ str_int (h div 2) @ ''" ''
     @ ''\<newline>                  text-anchor="middle" font-family="Arial" font-size="16">''
     @ ''\<newline>                Traced Image''
     @ ''\<newline>            </text>''
     @ ''\<newline>        </svg>''
     @ ''\<newline>        ''\<close>

definition trace_image :: "'img library \<Rightarrow> TraceImageRequest \<Rightarrow> HTTPException + TraceImageResponse" where
  "trace_image lib request = try_except_500
     (case decode_data lib (TraceImageRequest.image_data request) of
        Inl e \<Rightarrow> Inl e
      | Inr image_bytes \<Rightarrow>
          (case Image_open lib image_bytes of
             Inl e \<Rightarrow> Inl e
           | Inr img \<Rightarrow>
               (let svg_content = svg_template (Image_width lib img) (Image_height lib img)
                in Inr \<lparr>svg_content = py_strip svg_content, confidence = float64 (85 / 100)\<rparr>)))"


section \<open>A reference library\<close>

text \<open>
  To run the handlers on concrete requests the library parameter needs a value. The base64
  functions below follow CPython: \<^verbatim>\<open>base64.b64decode(s)\<close> with a \<^verbatim>\<open>str\<close> argument encodes it
  as ASCII (raising \<^verbatim>\<open>ValueError\<close> otherwise) and calls \<^verbatim>\<open>binascii.a2b_base64\<close> in its
  non-strict mode, which skips every character outside the alphabet, stops at a complete
  padding and raises \<^verbatim>\<open>binascii.Error\<close> when the data characters do not fill their last
  group of four.
\<close>

definition b64_value :: "char \<Rightarrow> byte option" where
  "b64_value c =
     (let n = (of_char c :: nat) in
      if 65 \<le> n \<and> n \<le> 90 then Some (of_nat (n - 65))
      else if 97 \<le> n \<and> n \<le> 122 then Some (of_nat (n - 71))
      else if 48 \<le> n \<and> n \<le> 57 then Some (of_nat (n + 4))
      else if c = CHR ''+'' then Some 62
      else if c = CHR ''/'' then Some 63
      else None)"

text \<open>
  The decoding loop: \<open>quad_pos\<close> is the position in the current group of four characters,
  \<open>leftchar\<close> the bits left over from the previous character, \<open>pads\<close> the number of
  padding characters just seen, \<open>out\<close> the bytes written so far.
\<close>

fun a2b_base64 :: "nat \<Rightarrow> byte \<Rightarrow> nat \<Rightarrow> byte list \<Rightarrow> string \<Rightarrow> exception_text + byte list" where
  "a2b_base64 quad_pos leftchar pads out [] =
     (if quad_pos = 0 then Inr out
      else if quad_pos = 1 then
        Inl (''Invalid base64-encoded string: number of data characters (''
             @ str_nat (length out div 3 * 4 + 1)
             @ '') cannot be 1 more than a multiple of 4'')
      else Inl ''Incorrect padding'')"
| "a2b_base64 quad_pos leftchar pads out (c # cs) =
     (if c = CHR ''='' then
        (if 2 \<le> quad_pos \<and> 4 \<le> quad_pos + (pads + 1) then Inr out
         else a2b_base64 quad_pos leftchar (if 2 \<le> quad_pos then pads + 1 else pads) out cs)
      else
        (case b64_value c of
           None \<Rightarrow> a2b_base64 quad_pos leftchar pads out cs
         | Some this_ch \<Rightarrow>
             (if quad_pos = 0 then a2b_base64 1 this_ch 0 out cs
              else if quad_pos = 1 then
                a2b_base64 2 (this_ch AND 0x0f) 0
                  (out @ [push_bit 2 leftchar OR drop_bit 4 this_ch]) cs
              else if quad_pos = 2 then
                a2b_base64 3 (this_ch AND 0x03) 0
                  (out @ [push_bit 4 leftchar OR drop_bit 2 this_ch]) cs
              else
                a2b_base64 0 0 0 (out @ [push_bit 6 leftchar OR this_ch]) cs)))"

definition py_b64decode :: "string \<Rightarrow> exception_text + byte list" where
  "py_b64decode s =
     (if \<exists>c \<in> set s. 128 \<le> (of_char c :: nat)
      then Inl ''string argument should contain only ASCII characters''
      else a2b_base64 0 0 0 [] s)"

definition b64_char :: "byte \<Rightarrow> char" where
  "b64_char v =
     ''ABCDEFGHIJKLMNOPQRSTUVWXYZabcdefghijklmnopqrstuvwxyz0123456789+/'' ! unat (v AND 0x3f)"

fun py_b64encode :: "byte list \<Rightarrow> string" where
  "py_b64encode [] = []"
| "py_b64encode [a] =
     [b64_char (drop_bit 2 a), b64_char (push_bit 4 (a AND 0x03)), CHR ''='', CHR ''='']"
| "py_b64encode [a, b] =
     [b64_char (drop_bit 2 a), b64_char (push_bit 4 (a AND 0x03) OR drop_bit 4 b),
      b64_char (push_bit 2 (b AND 0x0f)), CHR ''='']"
| "py_b64encode (a # b # c # rest) =
     [b64_char (drop_bit 2 a), b64_char (push_bit 4 (a AND 0x03) OR drop_bit 4 b),
      b64_char (push_bit 2 (b AND 0x0f) OR drop_bit 6 c), b64_char c] @ py_b64encode rest"

text \<open>
  In place of Pillow stands a reader and writer for the head of a PNG file: the eight
  signature bytes and the \<^verbatim>\<open>IHDR\<close> chunk, whose first eight data bytes are the width and
  the height as big-endian 32-bit numbers. The reader looks at nothing after them; the
  writer emits nothing after them.
\<close>

record png_head =
  png_width :: int
  png_height :: int

definition png_signature :: "byte list" where
  "png_signature = [0x89, 0x50, 0x4E, 0x47, 0x0D, 0x0A, 0x1A, 0x0A]"

definition ihdr_start :: "byte list" where
  "ihdr_start = [0x00, 0x00, 0x00, 0x0D, 0x49, 0x48, 0x44, 0x52]"

definition be32 :: "byte list \<Rightarrow> int" where
  "be32 bs = foldl (\<lambda>acc b. acc * 256 + uint b) 0 bs"

definition to_be32 :: "int \<Rightarrow> byte list" where
  "to_be32 n = [of_int (n div 16777216), of_int (n div 65536), of_int (n div 256), of_int n]"

definition png_open :: "byte list \<Rightarrow> exception_text + png_head" where
  "png_open bs =
     (if 24 \<le> length bs \<and> take 8 bs = png_signature \<and> take 8 (drop 8 bs) = ihdr_start
      then Inr \<lparr>png_width = be32 (take 4 (drop 16 bs)), png_height = be32 (take 4 (drop 20 bs))\<rparr>
      else Inl ''cannot identify image file'')"

definition png_save :: "png_head \<Rightarrow> exception_text + byte list" where
  "png_save img =
     Inr (png_signature @ ihdr_start @ to_be32 (png_width img) @ to_be32 (png_height img))"

definition reference_library :: "png_head library" where
  "reference_library =
     \<lparr>b64decode = py_b64decode,
      b64encode = py_b64encode,
      Image_open = png_open,
      Image_width = png_width,
      Image_height = png_height,
      Image_save_PNG = png_save\<rparr>"

section \<open>Properties\<close>

subsection \<open>Slices and ranges\<close>

lemma py_slice_to_nonneg:
  "0 \<le> stop \<Longrightarrow> py_slice_to xs stop = take (nat (min stop (int (length xs)))) xs"
  by (simp add: py_slice_to_def Let_def)

lemma py_slice_to_neg:
  "stop < 0 \<Longrightarrow> py_slice_to xs stop = take (nat (max 0 (int (length xs) + stop))) xs"
  by (simp add: py_slice_to_def Let_def)

lemma length_py_range: "int (length (py_range n)) = max 0 n"
  by (simp add: py_range_def)

lemma nth_py_range: "i < length (py_range n) \<Longrightarrow> py_range n ! i = int i"
  by (simp add: py_range_def)

subsection \<open>The relevance scores\<close>

text \<open>The double written \<^verbatim>\<open>0.1\<close> is \<open>0x3FB999999999999A\<close>.\<close>

lemma float64_one_tenth: "float64 (1 / 10) = 0x1999999999999A / 2 ^ 56"
  by code_simp

lemma relevance_values:
  "relevance 0 = 8106479329266893 / 2 ^ 53"
  "relevance 1 = 7205759403792794 / 2 ^ 53"
  "relevance 2 = 6305039478318694 / 2 ^ 53"
  "relevance 3 = 5404319552844595 / 2 ^ 53"
  "relevance 4 = 4503599627370496 / 2 ^ 53"
  by code_simp+

lemma float64_tenths:
  "float64 (9 / 10) = 8106479329266893 / 2 ^ 53"
  "float64 (8 / 10) = 7205759403792794 / 2 ^ 53"
  "float64 (7 / 10) = 6305039478318694 / 2 ^ 53"
  "float64 (6 / 10) = 5404319552844595 / 2 ^ 53"
  "float64 (5 / 10) = 4503599627370496 / 2 ^ 53"
  by code_simp+

lemma below_5_cases:
  "0 \<le> i \<Longrightarrow> i < 5 \<Longrightarrow> i = 0 \<or> i = 1 \<or> i = 2 \<or> i = 3 \<or> i = (4::int)"
  by arith

lemma relevance_nearest:
  assumes "0 \<le> i" "i < 5"
  shows "relevance i = float64 (9 / 10 - of_int i / 10)"
proof -
  from below_5_cases [OF assms] consider "i = 0" | "i = 1" | "i = 2" | "i = 3" | "i = 4"
    by blast
  then show ?thesis
  proof cases
    case 1 then show ?thesis using relevance_values(1) float64_tenths(1) by simp
  next
    case 2 then show ?thesis using relevance_values(2) float64_tenths(2) by simp
  next
    case 3 then show ?thesis using relevance_values(3) float64_tenths(3) by simp
  next
    case 4 then show ?thesis using relevance_values(4) float64_tenths(4) by simp
  next
    case 5 then show ?thesis using relevance_values(5) float64_tenths(5) by simp
  qed
qed

lemma relevance_commuted:
  "relevance i = float_sub (float64 (9 / 10)) (float_mul (float64 (1 / 10)) (float_of_int i))"
  by (simp add: relevance_def float_mul_def mult.commute)

lemma relevance_decreasing:
  assumes "0 \<le> i" "i < j" "j < 5"
  shows "relevance j < relevance i"
proof -
  have i: "i = 0 \<or> i = 1 \<or> i = 2 \<or> i = 3 \<or> i = 4" using assms by arith
  have j: "j = 0 \<or> j = 1 \<or> j = 2 \<or> j = 3 \<or> j = 4" using assms by arith
  from i j \<open>i < j\<close> show ?thesis
    by (auto simp add: relevance_values)
qed

text \<open>
  C1, as amended. A search with limit \<open>l\<close> succeeds with \<open>max 0 (min l 5)\<close> results (the
  claim says \<open>min l 5\<close>, which a negative limit does not give: \<^verbatim>\<open>range\<close> is then empty).
  The result at index \<open>i\<close> has id \<^verbatim>\<open>asset-i\<close>, url \<^verbatim>\<open>https://picsum.photos/200/200?random=i\<close>,
  title \<^verbatim>\<open>Sample Asset i\<close>, tags \<^verbatim>\<open>["sample", "image"]\<close> and as relevance the float
  \<^verbatim>\<open>0.9 - 0.1*i\<close>, which is the double nearest to \<open>9/10 - i/10\<close>; the relevance values are
  strictly decreasing.
\<close>

theorem search_assets_results:
  "\<exists>results. search_assets query limit =
       Inr (JDict [(''results'', JList results), (''total'', JInt (int (length results)))])
     \<and> int (length results) = max 0 (min limit 5)
     \<and> (\<forall>i < length results.
          results ! i = JDict
            [(''id'', JStr (''asset-'' @ str_int (int i))),
             (''url'', JStr (''https://picsum.photos/200/200?random='' @ str_int (int i))),
             (''title'', JStr (''Sample Asset '' @ str_int (int i))),
             (''tags'', JList [JStr ''sample'', JStr ''image'']),
             (''relevance'', JFloat (relevance (int i)))]
          \<and> relevance (int i) =
              float_sub (float64 (9 / 10)) (float_mul (float64 (1 / 10)) (float_of_int (int i)))
          \<and> relevance (int i) = float64 (9 / 10 - of_nat i / 10))
     \<and> (\<forall>i j. i < j \<and> j < length results \<longrightarrow> relevance (int j) < relevance (int i))"
proof -
  let ?results = "map search_result (py_range (min limit 5))"
  have len: "int (length ?results) = max 0 (min limit 5)"
    using length_py_range [of "min limit 5"] by simp
  have small: "int i < 5" if "i < length ?results" for i
    using that len by linarith
  have "search_assets query limit =
      Inr (JDict [(''results'', JList ?results), (''total'', JInt (int (length ?results)))])"
    by (simp add: search_assets_def try_except_500_def Let_def)
  moreover have "?results ! i = JDict
            [(''id'', JStr (''asset-'' @ str_int (int i))),
             (''url'', JStr (''https://picsum.photos/200/200?random='' @ str_int (int i))),
             (''title'', JStr (''Sample Asset '' @ str_int (int i))),
             (''tags'', JList [JStr ''sample'', JStr ''image'']),
             (''relevance'', JFloat (relevance (int i)))]" if "i < length ?results" for i
    using that nth_py_range [of i "min limit 5"] by (simp add: search_result_def)
  moreover have "relevance (int i) = float64 (9 / 10 - of_nat i / 10)" if "i < length ?results" for i
    using relevance_nearest [of "int i"] small [OF that] by simp
  moreover have "relevance (int j) < relevance (int i)" if "i < j" "j < length ?results" for i j
    using relevance_decreasing [of "int i" "int j"] small [OF that(2)] that(1) by simp
  ultimately show ?thesis
    using len relevance_commuted by blast
qed

theorem search_assets_results_witness:
  "search_assets ''logo'' 2 = Inr (JDict
     [(''results'', JList
         [JDict [(''id'', JStr ''asset-0''),
                 (''url'', JStr ''https://picsum.photos/200/200?random=0''),
                 (''title'', JStr ''Sample Asset 0''),
                 (''tags'', JList [JStr ''sample'', JStr ''image'']),
                 (''relevance'', JFloat (8106479329266893 / 2 ^ 53))],
          JDict [(''id'', JStr ''asset-1''),
                 (''url'', JStr ''https://picsum.photos/200/200?random=1''),
                 (''title'', JStr ''Sample Asset 1''),
                 (''tags'', JList [JStr ''sample'', JStr ''image'']),
                 (''relevance'', JFloat (7205759403792794 / 2 ^ 53))]]),
      (''total'', JInt 2)])"
proof -
  from search_assets_results [of "''logo''" 2] obtain results where
    r: "search_assets ''logo'' 2 =
          Inr (JDict [(''results'', JList results), (''total'', JInt (int (length results)))])"
    and len: "int (length results) = max 0 (min 2 5)"
    and nth: "\<forall>i < length results. results ! i = JDict
            [(''id'', JStr (''asset-'' @ str_int (int i))),
             (''url'', JStr (''https://picsum.photos/200/200?random='' @ str_int (int i))),
             (''title'', JStr (''Sample Asset '' @ str_int (int i))),
             (''tags'', JList [JStr ''sample'', JStr ''image'']),
             (''relevance'', JFloat (relevance (int i)))]"
    by blast
  from len have l2: "length results = 2" by simp
  then have "results = [results ! 0, results ! 1]"
    by (metis One_nat_def Suc_1 length_0_conv length_Suc_conv nth_Cons_0 nth_Cons_Suc)
  moreover have "0 < length results" "1 < length results" using l2 by simp_all
  ultimately have "results = [search_result 0, search_result 1]"
    using nth by (metis int_ops(1) int_ops(2) search_result_def)
  with r l2 show ?thesis
    by (simp add: search_result_def relevance_values str_int_def digit_char_def)
qed

text \<open>
  C1 as stated fails at \<^verbatim>\<open>limit = -1\<close>: the handler returns no result, and
  \<^verbatim>\<open>min(-1, 5)\<close> is \<open>-1\<close>.
\<close>

theorem search_assets_count_counterexample:
  "search_assets ''logo'' (- 1) = Inr (JDict [(''results'', JList []), (''total'', JInt 0)])
   \<and> int (length ([] :: json list)) \<noteq> min (- 1) 5"
  by (simp add: search_assets_def try_except_500_def py_range_def)

subsection \<open>Palette, search total and layout\<close>

lemma generate_palette_eq:
  "generate_palette request =
     Inr \<lparr>colors = py_slice_to [''#3B82F6'', ''#1E40AF'', ''#93C5FD'', ''#F59E0B'', ''#6B7280'']
                      (count request),
          harmony_type = ''complementary''\<rparr>"
  by (simp add: generate_palette_def try_except_500_def Let_def)

text \<open>
  C2. For a palette request with \<open>count = c\<close> and \<open>0 \<le> c\<close> the handler succeeds, the
  colours returned are the first \<open>min c 5\<close> entries of the fixed list of five, in its
  order, and there are \<open>min c 5\<close> of them; a count above five gives exactly five.
\<close>

theorem generate_palette_truncates:
  assumes "0 \<le> count request"
  shows "\<exists>response. generate_palette request = Inr response
     \<and> int (length (colors response)) = min (count request) 5
     \<and> colors response = take (nat (min (count request) 5))
          [''#3B82F6'', ''#1E40AF'', ''#93C5FD'', ''#F59E0B'', ''#6B7280'']
     \<and> (5 < count request \<longrightarrow> length (colors response) = 5)"
proof -
  let ?fixed = "[''#3B82F6'', ''#1E40AF'', ''#93C5FD'', ''#F59E0B'', ''#6B7280'']"
  let ?colors = "take (nat (min (count request) 5)) ?fixed"
  have "py_slice_to ?fixed (count request) = ?colors"
    using assms by (simp add: py_slice_to_nonneg)
  then have "generate_palette request = Inr \<lparr>colors = ?colors, harmony_type = ''complementary''\<rparr>"
    by (simp add: generate_palette_eq)
  moreover have "int (length ?colors) = min (count request) 5"
    using assms by simp
  moreover have "5 < count request \<longrightarrow> length ?colors = 5"
    by simp
  ultimately show ?thesis
    by simp
qed

theorem generate_palette_truncates_witness:
  "0 \<le> count \<lparr>GeneratePaletteRequest.image_data = None, base_color = None, count = 3\<rparr>
   \<and> generate_palette \<lparr>GeneratePaletteRequest.image_data = None, base_color = None, count = 3\<rparr>
       = Inr \<lparr>colors = [''#3B82F6'', ''#1E40AF'', ''#93C5FD''], harmony_type = ''complementary''\<rparr>"
  using generate_palette_truncates
          [of "\<lparr>GeneratePaletteRequest.image_data = None, base_color = None, count = 3\<rparr>"]
  by (auto simp add: generate_palette_eq)

text \<open>
  C7. Two palette requests with the same count get the same response, whatever their
  \<^verbatim>\<open>base_color\<close> and \<^verbatim>\<open>image_data\<close>; the harmony type is always \<^verbatim>\<open>"complementary"\<close>.
\<close>

theorem generate_palette_noninterference:
  assumes "count request = count request'"
  shows "generate_palette request = generate_palette request'
     \<and> (\<exists>response. generate_palette request = Inr response
           \<and> harmony_type response = ''complementary'')"
  using assms by (simp add: generate_palette_eq)

theorem generate_palette_noninterference_witness:
  "generate_palette
       \<lparr>GeneratePaletteRequest.image_data = None, base_color = Some ''#FF0000'', count = 2\<rparr>
   = generate_palette
       \<lparr>GeneratePaletteRequest.image_data = Some ''AAAA'', base_color = None, count = 2\<rparr>"
  using generate_palette_noninterference
    [of "\<lparr>GeneratePaletteRequest.image_data = None, base_color = Some ''#FF0000'', count = 2\<rparr>"
        "\<lparr>GeneratePaletteRequest.image_data = Some ''AAAA'', base_color = None, count = 2\<rparr>"]
  by simp

text \<open>
  C9. For a palette request with a negative count \<open>c\<close> the handler does not fail: the
  colours returned are the first \<open>max 0 (5 + c)\<close> entries of the fixed list.
\<close>

theorem generate_palette_negative_count:
  assumes "count request < 0"
  shows "\<exists>response. generate_palette request = Inr response
     \<and> colors response = take (nat (max 0 (5 + count request)))
          [''#3B82F6'', ''#1E40AF'', ''#93C5FD'', ''#F59E0B'', ''#6B7280'']
     \<and> int (length (colors response)) = max 0 (5 + count request)"
proof -
  let ?fixed = "[''#3B82F6'', ''#1E40AF'', ''#93C5FD'', ''#F59E0B'', ''#6B7280'']"
  let ?colors = "take (nat (max 0 (5 + count request))) ?fixed"
  have "py_slice_to ?fixed (count request) = ?colors"
    using assms by (simp add: py_slice_to_neg)
  then have "generate_palette request = Inr \<lparr>colors = ?colors, harmony_type = ''complementary''\<rparr>"
    by (simp add: generate_palette_eq)
  moreover have "int (length ?colors) = max 0 (5 + count request)"
    using assms by simp
  ultimately show ?thesis
    by simp
qed

theorem generate_palette_negative_count_witness:
  "generate_palette \<lparr>GeneratePaletteRequest.image_data = None, base_color = None, count = - 1\<rparr>
     = Inr \<lparr>colors = [''#3B82F6'', ''#1E40AF'', ''#93C5FD'', ''#F59E0B''],
            harmony_type = ''complementary''\<rparr>
   \<and> generate_palette \<lparr>GeneratePaletteRequest.image_data = None, base_color = None, count = - 5\<rparr>
     = Inr \<lparr>colors = [], harmony_type = ''complementary''\<rparr>"
  using generate_palette_negative_count
          [of "\<lparr>GeneratePaletteRequest.image_data = None, base_color = None, count = - 1\<rparr>"]
        generate_palette_negative_count
          [of "\<lparr>GeneratePaletteRequest.image_data = None, base_color = None, count = - 5\<rparr>"]
  by (auto simp add: generate_palette_eq)

text \<open>
  C10. A search never fails, and the \<^verbatim>\<open>total\<close> of its response is the length of its
  \<^verbatim>\<open>results\<close>, for every limit; for a negative limit the results are empty and the total
  is \<open>0\<close>.
\<close>

theorem search_assets_total:
  "\<exists>results. search_assets query limit =
       Inr (JDict [(''results'', JList results), (''total'', JInt (int (length results)))])
     \<and> (limit < 0 \<longrightarrow> results = [])"
proof -
  let ?results = "map search_result (py_range (min limit 5))"
  have "search_assets query limit =
      Inr (JDict [(''results'', JList ?results), (''total'', JInt (int (length ?results)))])"
    by (simp add: search_assets_def try_except_500_def Let_def)
  moreover have "limit < 0 \<longrightarrow> ?results = []"
    by (simp add: py_range_def)
  ultimately show ?thesis by blast
qed

theorem search_assets_total_witness:
  "search_assets ''logo'' (- 3) = Inr (JDict [(''results'', JList []), (''total'', JInt 0)])"
  using search_assets_total [of "''logo''" "- 3"] by auto

text \<open>
  C6. For a layout request with width \<open>W\<close> and height \<open>H\<close> the handler succeeds. The
  artboard of the scene graph has width \<open>W\<close> and height \<open>H\<close>; the elements are exactly two
  dictionaries, the first a text node with id \<^verbatim>\<open>text-1\<close> whose content is
  \<^verbatim>\<open>Generated from: \<close> followed by the prompt, the second a rectangle with id \<^verbatim>\<open>rect-1\<close>;
  the preview image is \<^verbatim>\<open>None\<close>.
\<close>

theorem generate_layout_scene_graph:
  "\<exists>artboard text_node rect_node.
     generate_layout request =
       Inr \<lparr>scene_graph = JDict [(''artboard'', JDict artboard),
                                  (''elements'', JList [JDict text_node, JDict rect_node])],
            preview_image = None\<rparr>
     \<and> map_of artboard ''width'' = Some (JInt (width request))
     \<and> map_of artboard ''height'' = Some (JInt (height request))
     \<and> map_of text_node ''id'' = Some (JStr ''text-1'')
     \<and> map_of text_node ''type'' = Some (JStr ''text'')
     \<and> map_of text_node ''content'' =
           Some (JStr (''Generated from: '' @ GenerateLayoutRequest.prompt request))
     \<and> map_of rect_node ''id'' = Some (JStr ''rect-1'')
     \<and> map_of rect_node ''type'' = Some (JStr ''rectangle'')"
  by (simp add: generate_layout_def try_except_500_def)

theorem generate_layout_scene_graph_witness:
  "\<exists>elements. generate_layout
      \<lparr>GenerateLayoutRequest.prompt = ''poster'', width = 1024, height = 768, style = None\<rparr>
    = Inr \<lparr>scene_graph = JDict
              [(''artboard'', JDict [(''id'', JStr ''artboard-1''), (''width'', JInt 1024),
                                    (''height'', JInt 768), (''backgroundColor'', JStr ''#FFFFFF'')]),
               (''elements'', elements)],
           preview_image = None\<rparr>"
  using generate_layout_scene_graph
    [of "\<lparr>GenerateLayoutRequest.prompt = ''poster'', width = 1024, height = 768, style = None\<rparr>"]
  by (simp add: generate_layout_def try_except_500_def)

subsection \<open>Base64 payloads\<close>

lemma split_from_unfold:
  "split_from sep cur s =
     (rev cur @ takeWhile (\<lambda>c. c \<noteq> sep) s)
       # (if sep \<in> set s then split_from sep [] (tl (dropWhile (\<lambda>c. c \<noteq> sep) s)) else [])"
  by (induction s arbitrary: cur) auto

lemma py_split_second:
  assumes "sep \<in> set s"
  shows "\<exists>rest. py_split s sep =
     takeWhile (\<lambda>c. c \<noteq> sep) s
       # takeWhile (\<lambda>c. c \<noteq> sep) (tl (dropWhile (\<lambda>c. c \<noteq> sep) s)) # rest"
proof -
  let ?r = "tl (dropWhile (\<lambda>c. c \<noteq> sep) s)"
  have "py_split s sep = takeWhile (\<lambda>c. c \<noteq> sep) s # split_from sep [] ?r"
    using assms split_from_unfold [of sep "[]" s] by (simp add: py_split_def)
  moreover have "\<exists>rest. split_from sep [] ?r = takeWhile (\<lambda>c. c \<noteq> sep) ?r # rest"
    using split_from_unfold [of sep "[]" ?r] by simp
  ultimately show ?thesis by auto
qed

lemma payload_eq:
  "payload data =
     Inr (if CHR '','' \<in> set data
          then takeWhile (\<lambda>c. c \<noteq> CHR '','') (tl (dropWhile (\<lambda>c. c \<noteq> CHR '','') data))
          else data)"
proof (cases "CHR '','' \<in> set data")
  case True
  from py_split_second [OF True] obtain rest where
    "py_split data CHR '','' =
       takeWhile (\<lambda>c. c \<noteq> CHR '','') data
         # takeWhile (\<lambda>c. c \<noteq> CHR '','') (tl (dropWhile (\<lambda>c. c \<noteq> CHR '','') data)) # rest"
    by blast
  with True show ?thesis
    by (simp add: payload_def py_getitem_def)
next
  case False
  then show ?thesis by (simp add: payload_def)
qed

lemma decode_data_eq:
  "decode_data lib data =
     b64decode lib
       (if CHR '','' \<in> set data
        then takeWhile (\<lambda>c. c \<noteq> CHR '','') (tl (dropWhile (\<lambda>c. c \<noteq> CHR '','') data))
        else data)"
  unfolding decode_data_def payload_eq by simp

text \<open>
  C4, as amended. The bytes decoded from a base64 field are the decoding of the whole
  string when it has no comma, and otherwise of the piece between its first comma and its
  second comma (or the end of the string): \<^verbatim>\<open>split(',')[1]\<close> is the second piece, not
  everything after the first comma. The two agree when the string has exactly one comma.
\<close>

theorem decode_data_segment:
  "decode_data lib data =
     b64decode lib
       (if CHR '','' \<in> set data
        then takeWhile (\<lambda>c. c \<noteq> CHR '','') (tl (dropWhile (\<lambda>c. c \<noteq> CHR '','') data))
        else data)
   \<and> (CHR '','' \<in> set data \<and> CHR '','' \<notin> set (tl (dropWhile (\<lambda>c. c \<noteq> CHR '','') data))
        \<longrightarrow> decode_data lib data = b64decode lib (tl (dropWhile (\<lambda>c. c \<noteq> CHR '','') data)))"
proof -
  let ?rest = "tl (dropWhile (\<lambda>c. c \<noteq> CHR '','') data)"
  have "decode_data lib data = b64decode lib ?rest"
    if "CHR '','' \<in> set data" "CHR '','' \<notin> set ?rest"
  proof -
    have "takeWhile (\<lambda>c. c \<noteq> CHR '','') ?rest = ?rest"
      using that(2) by (auto simp add: takeWhile_eq_all_conv)
    moreover have "decode_data lib data = b64decode lib (takeWhile (\<lambda>c. c \<noteq> CHR '','') ?rest)"
      using that(1) by (simp only: decode_data_eq if_True)
    ultimately show ?thesis by (simp only:)
  qed
  then show ?thesis
    using decode_data_eq [of lib data] by blast
qed

lemma b64decode_reference: "b64decode reference_library = py_b64decode"
  by (simp add: reference_library_def)

theorem decode_data_segment_witness:
  "decode_data reference_library ''data:image/png;base64,QUJD'' = Inr [0x41, 0x42, 0x43]
   \<and> decode_data reference_library ''QUJD'' = Inr [0x41, 0x42, 0x43]
   \<and> decode_data reference_library ''AAAA,QUJD,CCCC'' = Inr [0x41, 0x42, 0x43]"
proof -
  have b: "py_b64decode ''QUJD'' = Inr [0x41, 0x42, 0x43]"
    by code_simp
  show ?thesis
    using decode_data_segment [of reference_library "''data:image/png;base64,QUJD''"]
      decode_data_segment [of reference_library "''QUJD''"]
      decode_data_segment [of reference_library "''AAAA,QUJD,CCCC''"] b
    by (simp add: b64decode_reference)
qed

text \<open>
  C4 as stated fails on \<^verbatim>\<open>AAAA,BBBB,CCCC\<close>: the handlers decode \<^verbatim>\<open>BBBB\<close> (three bytes),
  while the remainder after the first comma, \<^verbatim>\<open>BBBB,CCCC\<close>, decodes to six bytes.
\<close>

theorem decode_data_remainder_counterexample:
  "decode_data reference_library ''AAAA,BBBB,CCCC'' = Inr [0x04, 0x10, 0x41]
   \<and> b64decode reference_library ''BBBB,CCCC'' = Inr [0x04, 0x10, 0x41, 0x08, 0x20, 0x82]
   \<and> decode_data reference_library ''AAAA,BBBB,CCCC'' \<noteq> b64decode reference_library ''BBBB,CCCC''"
  by code_simp

subsection \<open>Tracing\<close>

lemma py_strip_sandwich:
  assumes l: "\<forall>c \<in> set l. py_isspace c" and r: "\<forall>c \<in> set r. py_isspace c"
    and first: "\<not> py_isspace a" and last: "\<not> py_isspace z"
  shows "py_strip (l @ (a # mid @ [z]) @ r) = a # mid @ [z]"
proof -
  have "dropWhile py_isspace (l @ (a # mid @ [z]) @ r) = (a # mid @ [z]) @ r"
    using l first by (simp add: dropWhile_append3)
  moreover have "dropWhile py_isspace (rev r @ z # rev mid @ [a]) = z # rev mid @ [a]"
    using r last by (simp add: dropWhile_append3)
  ultimately show ?thesis
    by (simp add: py_strip_def)
qed

lemma py_contains_prefix: "py_contains sub (sub @ suf)"
proof (cases "sub @ suf")
  case Nil
  then show ?thesis by simp
next
  case (Cons c cs)
  have "take (length sub) (sub @ suf) = sub" by simp
  with Cons show ?thesis by simp
qed

lemma py_contains_append: "py_contains sub (pre @ sub @ suf)"
  by (induction pre) (simp_all add: py_contains_prefix)

lemma py_strip_svg_template:
  \<open>py_strip (svg_template w h) =
     ''<svg width="'' @ str_int w @ ''" height="'' @ str_int h
       @ ''" xmlns="http://www.w3.org/2000/svg">''
     @ ''\<newline>            <rect x="10" y="10" width="'' @ str_int (w - 20)
       @ ''" height="'' @ str_int (h - 20) @ ''" ''
     @ ''\<newline>                  fill="none" stroke="#000000" stroke-width="2"/>''
     @ ''\<newline>            <text x="'' @ str_int (w div 2) @ ''" y="'' @ str_int (h div 2) @ ''" ''
     @ ''\<newline>                  text-anchor="middle" font-family="Arial" font-size="16">''
     @ ''\<newline>                Traced Image''
     @ ''\<newline>            </text>''
     @ ''\<newline>        </svg>''\<close>
proof -
  let ?mid = \<open>''svg width="'' @ str_int w @ ''" height="'' @ str_int h
       @ ''" xmlns="http://www.w3.org/2000/svg">''
     @ ''\<newline>            <rect x="10" y="10" width="'' @ str_int (w - 20)
       @ ''" height="'' @ str_int (h - 20) @ ''" ''
     @ ''\<newline>                  fill="none" stroke="#000000" stroke-width="2"/>''
     @ ''\<newline>            <text x="'' @ str_int (w div 2) @ ''" y="'' @ str_int (h div 2) @ ''" ''
     @ ''\<newline>                  text-anchor="middle" font-family="Arial" font-size="16">''
     @ ''\<newline>                Traced Image''
     @ ''\<newline>            </text>''
     @ ''\<newline>        </svg''\<close>
  have \<open>svg_template w h = ''\<newline>        '' @ (CHR ''<'' # ?mid @ ''>'') @ ''\<newline>        ''\<close>
    by (simp add: svg_template_def)
  moreover have \<open>py_strip (''\<newline>        '' @ (CHR ''<'' # ?mid @ ''>'') @ ''\<newline>        '')
      = CHR ''<'' # ?mid @ ''>''\<close>
    by (rule py_strip_sandwich) (simp_all add: py_isspace_def)
  ultimately show ?thesis
    by simp
qed

lemma svg_contains_width:
  \<open>py_contains (''width="'' @ str_int w @ ''"'') (py_strip (svg_template w h))\<close>
proof -
  have \<open>\<exists>suf. py_strip (svg_template w h) = ''<svg '' @ (''width="'' @ str_int w @ ''"'') @ suf\<close>
    by (simp add: py_strip_svg_template)
  then show ?thesis
    using py_contains_append by metis
qed

lemma svg_contains_height:
  \<open>py_contains (''height="'' @ str_int h @ ''"'') (py_strip (svg_template w h))\<close>
proof -
  have \<open>\<exists>suf. py_strip (svg_template w h)
      = (''<svg width="'' @ str_int w @ ''" '') @ (''height="'' @ str_int h @ ''"'') @ suf\<close>
    by (simp add: py_strip_svg_template)
  then show ?thesis
    using py_contains_append by metis
qed

lemma try_except_500_simps:
  "try_except_500 (Inl e) = Inl (HTTPException 500 e)"
  "try_except_500 (Inr response) = Inr response"
  by (simp_all add: try_except_500_def)

lemma pixel_png_bytes:
  "py_b64decode ''iVBORw0KGgoAAAANSUhEUgAAAAEAAAABCAYAAAAfFcSJAAAADUlEQVR42mNk+M9QDwADhgGAWjR9awAAAABJRU5ErkJggg=='' =
     Inr [0x89, 0x50, 0x4E, 0x47, 0x0D, 0x0A, 0x1A, 0x0A, 0x00, 0x00, 0x00, 0x0D, 0x49,
        0x48, 0x44, 0x52, 0x00, 0x00, 0x00, 0x01, 0x00, 0x00, 0x00, 0x01, 0x08, 0x06,
        0x00, 0x00, 0x00, 0x1F, 0x15, 0xC4, 0x89, 0x00, 0x00, 0x00, 0x0D, 0x49, 0x44,
        0x41, 0x54, 0x78, 0xDA, 0x63, 0x64, 0xF8, 0xCF, 0x50, 0x0F, 0x00, 0x03, 0x86,
        0x01, 0x80, 0x5A, 0x34, 0x7D, 0x6B, 0x00, 0x00, 0x00, 0x00, 0x49, 0x45, 0x4E,
        0x44, 0xAE, 0x42, 0x60, 0x82]"
  by code_simp

lemma pixel_png_open:
  "png_open [0x89, 0x50, 0x4E, 0x47, 0x0D, 0x0A, 0x1A, 0x0A, 0x00, 0x00, 0x00, 0x0D, 0x49,
        0x48, 0x44, 0x52, 0x00, 0x00, 0x00, 0x01, 0x00, 0x00, 0x00, 0x01, 0x08, 0x06,
        0x00, 0x00, 0x00, 0x1F, 0x15, 0xC4, 0x89, 0x00, 0x00, 0x00, 0x0D, 0x49, 0x44,
        0x41, 0x54, 0x78, 0xDA, 0x63, 0x64, 0xF8, 0xCF, 0x50, 0x0F, 0x00, 0x03, 0x86,
        0x01, 0x80, 0x5A, 0x34, 0x7D, 0x6B, 0x00, 0x00, 0x00, 0x00, 0x49, 0x45, 0x4E,
        0x44, 0xAE, 0x42, 0x60, 0x82] = Inr \<lparr>png_width = 1, png_height = 1\<rparr>"
  by code_simp

lemma decode_pixel_png:
  "decode_data reference_library ''data:image/png;base64,iVBORw0KGgoAAAANSUhEUgAAAAEAAAABCAYAAAAfFcSJAAAADUlEQVR42mNk+M9QDwADhgGAWjR9awAAAABJRU5ErkJggg=='' =
     Inr [0x89, 0x50, 0x4E, 0x47, 0x0D, 0x0A, 0x1A, 0x0A, 0x00, 0x00, 0x00, 0x0D, 0x49,
        0x48, 0x44, 0x52, 0x00, 0x00, 0x00, 0x01, 0x00, 0x00, 0x00, 0x01, 0x08, 0x06,
        0x00, 0x00, 0x00, 0x1F, 0x15, 0xC4, 0x89, 0x00, 0x00, 0x00, 0x0D, 0x49, 0x44,
        0x41, 0x54, 0x78, 0xDA, 0x63, 0x64, 0xF8, 0xCF, 0x50, 0x0F, 0x00, 0x03, 0x86,
        0x01, 0x80, 0x5A, 0x34, 0x7D, 0x6B, 0x00, 0x00, 0x00, 0x00, 0x49, 0x45, 0x4E,
        0x44, 0xAE, 0x42, 0x60, 0x82]"
  using pixel_png_bytes by (simp add: decode_data_eq b64decode_reference)

text \<open>
  C5. When the payload of a trace request decodes to bytes that open as an image of width
  \<open>w\<close> and height \<open>h\<close>, the handler succeeds, the SVG text of the response contains
  \<^verbatim>\<open>width="w"\<close> and \<^verbatim>\<open>height="h"\<close> with the numbers in decimal, and the confidence is the
  float \<^verbatim>\<open>0.85\<close>.
\<close>

theorem trace_image_svg:
  assumes "decode_data lib (TraceImageRequest.image_data request) = Inr image_bytes"
    and "Image_open lib image_bytes = Inr img"
    and "Image_width lib img = w" and "Image_height lib img = h"
  shows \<open>\<exists>response. trace_image lib request = Inr response
     \<and> py_contains (''width="'' @ str_int w @ ''"'') (svg_content response)
     \<and> py_contains (''height="'' @ str_int h @ ''"'') (svg_content response)
     \<and> confidence response = float64 (85 / 100)\<close>
proof -
  have "trace_image lib request =
      Inr \<lparr>svg_content = py_strip (svg_template w h), confidence = float64 (85 / 100)\<rparr>"
    using assms by (simp add: trace_image_def try_except_500_simps)
  then show ?thesis
    using svg_contains_width [of w h] svg_contains_height [of h w] by simp
qed

lemma confidence_value: "float64 (85 / 100) = 7656119366529843 / 2 ^ 53"
  by code_simp

theorem trace_image_svg_witness:
  \<open>trace_image reference_library
       \<lparr>TraceImageRequest.image_data = ''data:image/png;base64,iVBORw0KGgoAAAANSUhEUgAAAAEAAAABCAYAAAAfFcSJAAAADUlEQVR42mNk+M9QDwADhgGAWjR9awAAAABJRU5ErkJggg==''\<rparr>
     = Inr \<lparr>svg_content =
          ''<svg width="1" height="1" xmlns="http://www.w3.org/2000/svg">'' @
          ''\<newline>            <rect x="10" y="10" width="-19" height="-19" '' @
          ''\<newline>                  fill="none" stroke="#000000" stroke-width="2"/>'' @
          ''\<newline>            <text x="0" y="0" '' @
          ''\<newline>                  text-anchor="middle" font-family="Arial" font-size="16">'' @
          ''\<newline>                Traced Image'' @
          ''\<newline>            </text>'' @
          ''\<newline>        </svg>'',
        confidence = 7656119366529843 / 2 ^ 53\<rparr>
   \<and> py_contains ''width="1"''
        (''<svg width="1" height="1" xmlns="http://www.w3.org/2000/svg">'' @
          ''\<newline>            <rect x="10" y="10" width="-19" height="-19" '' @
          ''\<newline>                  fill="none" stroke="#000000" stroke-width="2"/>'' @
          ''\<newline>            <text x="0" y="0" '' @
          ''\<newline>                  text-anchor="middle" font-family="Arial" font-size="16">'' @
          ''\<newline>                Traced Image'' @
          ''\<newline>            </text>'' @
          ''\<newline>        </svg>'')
   \<and> py_contains ''height="1"''
        (''<svg width="1" height="1" xmlns="http://www.w3.org/2000/svg">'' @
          ''\<newline>            <rect x="10" y="10" width="-19" height="-19" '' @
          ''\<newline>                  fill="none" stroke="#000000" stroke-width="2"/>'' @
          ''\<newline>            <text x="0" y="0" '' @
          ''\<newline>                  text-anchor="middle" font-family="Arial" font-size="16">'' @
          ''\<newline>                Traced Image'' @
          ''\<newline>            </text>'' @
          ''\<newline>        </svg>'')\<close>
proof -
  let ?request = "\<lparr>TraceImageRequest.image_data = ''data:image/png;base64,iVBORw0KGgoAAAANSUhEUgAAAAEAAAABCAYAAAAfFcSJAAAADUlEQVR42mNk+M9QDwADhgGAWjR9awAAAABJRU5ErkJggg==''\<rparr>"
  have 1: "decode_data reference_library (TraceImageRequest.image_data ?request) =
      Inr [0x89, 0x50, 0x4E, 0x47, 0x0D, 0x0A, 0x1A, 0x0A, 0x00, 0x00, 0x00, 0x0D, 0x49,
        0x48, 0x44, 0x52, 0x00, 0x00, 0x00, 0x01, 0x00, 0x00, 0x00, 0x01, 0x08, 0x06,
        0x00, 0x00, 0x00, 0x1F, 0x15, 0xC4, 0x89, 0x00, 0x00, 0x00, 0x0D, 0x49, 0x44,
        0x41, 0x54, 0x78, 0xDA, 0x63, 0x64, 0xF8, 0xCF, 0x50, 0x0F, 0x00, 0x03, 0x86,
        0x01, 0x80, 0x5A, 0x34, 0x7D, 0x6B, 0x00, 0x00, 0x00, 0x00, 0x49, 0x45, 0x4E,
        0x44, 0xAE, 0x42, 0x60, 0x82]"
    using decode_pixel_png by simp
  have 2: "Image_open reference_library [0x89, 0x50, 0x4E, 0x47, 0x0D, 0x0A, 0x1A, 0x0A, 0x00, 0x00, 0x00, 0x0D, 0x49,
        0x48, 0x44, 0x52, 0x00, 0x00, 0x00, 0x01, 0x00, 0x00, 0x00, 0x01, 0x08, 0x06,
        0x00, 0x00, 0x00, 0x1F, 0x15, 0xC4, 0x89, 0x00, 0x00, 0x00, 0x0D, 0x49, 0x44,
        0x41, 0x54, 0x78, 0xDA, 0x63, 0x64, 0xF8, 0xCF, 0x50, 0x0F, 0x00, 0x03, 0x86,
        0x01, 0x80, 0x5A, 0x34, 0x7D, 0x6B, 0x00, 0x00, 0x00, 0x00, 0x49, 0x45, 0x4E,
        0x44, 0xAE, 0x42, 0x60, 0x82] = Inr \<lparr>png_width = 1, png_height = 1\<rparr>"
    using pixel_png_open by (simp add: reference_library_def)
  have 3: "Image_width reference_library \<lparr>png_width = 1, png_height = 1\<rparr> = 1"
    "Image_height reference_library \<lparr>png_width = 1, png_height = 1\<rparr> = 1"
    by (simp_all add: reference_library_def)
  have digits: "str_int 1 = ''1''" "str_int (- 19) = ''-19''" "str_int 0 = ''0''"
    by (simp_all add: str_int_def digit_char_def)
  have traced: \<open>trace_image reference_library ?request
     = Inr \<lparr>svg_content =
          ''<svg width="1" height="1" xmlns="http://www.w3.org/2000/svg">'' @
          ''\<newline>            <rect x="10" y="10" width="-19" height="-19" '' @
          ''\<newline>                  fill="none" stroke="#000000" stroke-width="2"/>'' @
          ''\<newline>            <text x="0" y="0" '' @
          ''\<newline>                  text-anchor="middle" font-family="Arial" font-size="16">'' @
          ''\<newline>                Traced Image'' @
          ''\<newline>            </text>'' @
          ''\<newline>        </svg>'',
        confidence = 7656119366529843 / 2 ^ 53\<rparr>\<close>
    using 1 2 3 digits confidence_value
    by (simp add: trace_image_def try_except_500_simps py_strip_svg_template)
  from trace_image_svg [OF 1 2 3] traced digits(1) show ?thesis
    by simp
qed

subsection \<open>Inpainting\<close>











subsection \<open>Failures\<close>



end
